theory Spec2Isabelle
  imports Main "HOL-Library.Word"
begin

section \<open>The order handler of \<open>Go Oders Function/main.go\<close>\<close>

text \<open>
  The program is one Lambda handler over an \<open>Orders\<close> table: \<open>handler\<close> dispatches on the
  HTTP method to \<open>createOrder\<close>, \<open>getOrderByID\<close> and \<open>getAllOrders\<close>; the helpers are
  \<open>response\<close>, \<open>intToString\<close>, \<open>mapToOrder\<close> and \<open>atoi\<close>. Each of them is embedded below
  under its own name. What the program calls but does not define is modelled in the first
  subsections: the few functions of \<open>strconv\<close>, \<open>encoding/json\<close> and \<open>time\<close> that have a small,
  documented behaviour are written out; \<open>json.Unmarshal\<close>, the clock and the DynamoDB client
  are parameters of the handler (the record \<open>env\<close>), so that every theorem holds for
  whatever they answer. The lines written with \<open>log.Println\<close> are left out.
\<close>

subsection \<open>Go values\<close>

text \<open>Go's \<open>int\<close> on the 64-bit targets of a Lambda function: 64 bits, two's complement
  (read with \<open>sint\<close>).\<close>

type_synonym go_int = "64 word"

text \<open>A value of Go's \<open>error\<close> interface, by its message.\<close>

datatype error = Error string

text \<open>A run-time panic. The only one the program can raise itself is the failed type
  assertion \<open>item[k].(*T)\<close> of \<open>mapToOrder\<close>; it carries the attribute name \<open>k\<close>.\<close>

datatype panic = InterfaceConversion string

subsection \<open>\<open>strconv\<close>: \<open>Itoa\<close> and \<open>Atoi\<close>\<close>

text \<open>
  \<open>strconv.Itoa(i)\<close> is \<open>FormatInt(int64(i), 10)\<close>: the decimal digits of the magnitude, most
  significant first, after a minus sign when \<open>i\<close> is negative.
\<close>

definition digit :: "nat \<Rightarrow> char" where
  "digit d = ''0123456789'' ! d"

fun formatBits :: "nat \<Rightarrow> string" where
  "formatBits u = (if u < 10 then [digit u] else formatBits (u div 10) @ [digit (u mod 10)])"

declare formatBits.simps [simp del]

definition FormatInt :: "int \<Rightarrow> string" where
  "FormatInt i = (if i < 0 then CHR ''-'' # formatBits (nat (- i)) else formatBits (nat i))"

definition Itoa :: "go_int \<Rightarrow> string" where
  "Itoa i = FormatInt (sint i)"

text \<open>
  \<open>strconv.Atoi(s)\<close> is \<open>ParseInt(s, 10, 0)\<close> converted to \<open>int\<close>, and it returns a value
  together with an error. \<open>ParseUint\<close> reads the digits from the left into a \<open>uint64\<close>
  (a \<open>nat\<close> here, the wrap-around of the addition written out): a byte that is no decimal
  digit ends it with \<open>(0, ErrSyntax)\<close>, an overflow ends it at once with
  \<open>(maxUint64, ErrRange)\<close>. \<open>ParseInt\<close> takes the sign off, and on a magnitude that does not
  fit 64 signed bits returns the integer of largest magnitude of that sign with \<open>ErrRange\<close>.
\<close>

datatype NumError = ErrSyntax | ErrRange

definition maxUint64 :: nat where
  "maxUint64 = 2 ^ 64 - 1"

fun ParseUint_loop :: "nat \<Rightarrow> string \<Rightarrow> nat \<times> NumError option" where
  "ParseUint_loop n [] = (n, None)"
| "ParseUint_loop n (c # cs) =
     (if \<not> (48 \<le> (of_char c :: nat) \<and> (of_char c :: nat) \<le> 57) then (0, Some ErrSyntax)
      else if n \<ge> maxUint64 div 10 + 1 then (maxUint64, Some ErrRange)
      else let n10 = n * 10; n1 = (n10 + (of_char c - 48)) mod 2 ^ 64 in
        if n1 < n10 \<or> n1 > maxUint64 then (maxUint64, Some ErrRange)
        else ParseUint_loop n1 cs)"

definition ParseUint :: "string \<Rightarrow> nat \<times> NumError option" where
  "ParseUint s = (if s = [] then (0, Some ErrSyntax) else ParseUint_loop 0 s)"

definition ParseInt :: "string \<Rightarrow> int \<times> NumError option" where
  "ParseInt s0 =
     (if s0 = [] then (0, Some ErrSyntax)
      else let neg = (hd s0 = CHR ''-'');
               s = (if hd s0 = CHR ''+'' \<or> hd s0 = CHR ''-'' then tl s0 else s0);
               (un, err) = ParseUint s
           in if err = Some ErrSyntax then (0, err)
              else if \<not> neg \<and> un \<ge> 2 ^ 63 then (2 ^ 63 - 1, Some ErrRange)
              else if neg \<and> un > 2 ^ 63 then (- (2 ^ 63), Some ErrRange)
              else (if neg then - int un else int un, None))"

definition Atoi :: "string \<Rightarrow> go_int \<times> NumError option" where
  "Atoi s = (let (i64, err) = ParseInt s in (word_of_int i64, err))"

subsection \<open>\<open>encoding/json\<close>: what \<open>json.Marshal\<close> writes for the values of the program\<close>

text \<open>
  A Go string is written between double quotes by \<open>appendString\<close> (with HTML escaping, the
  default of \<open>json.Marshal\<close>). Of the ASCII bytes, the quote and the backslash get a
  backslash, the control bytes and \<open><\<close>, \<open>>\<close>, \<open>&\<close> become escapes (\<open>\b\<close> and \<open>\f\<close> as Go
  writes them since version 1.22), every other one is copied. From \<open>0x80\<close> on the bytes are
  read as UTF-8, as \<open>utf8.DecodeRuneInString\<close> does: a well-formed rune is copied, but for
  U+2028 and U+2029, which are escaped; a byte that starts no well-formed rune is replaced
  by U+FFFD, written as its three bytes \<open>EF BF BD\<close> (what the current toolchain does;
  releases before it wrote the six-character escape instead).
\<close>

definition hex :: string where
  "hex = ''0123456789abcdef''"

definition appendString_byte :: "char \<Rightarrow> string" where
  "appendString_byte c =
     (let b = (of_char c :: nat) in
      if c = CHR 0x5C \<or> c = CHR 0x22 then [CHR 0x5C, c]
      else if b = 8 then [CHR 0x5C, CHR ''b'']
      else if b = 12 then [CHR 0x5C, CHR ''f'']
      else if b = 10 then [CHR 0x5C, CHR ''n'']
      else if b = 13 then [CHR 0x5C, CHR ''r'']
      else if b = 9 then [CHR 0x5C, CHR ''t'']
      else if b < 32 \<or> c = CHR ''<'' \<or> c = CHR ''>'' \<or> c = CHR ''&''
        then [CHR 0x5C, CHR ''u'', CHR ''0'', CHR ''0'', hex ! (b div 16), hex ! (b mod 16)]
      else [c])"

definition byteAt :: "string \<Rightarrow> nat \<Rightarrow> nat" where
  "byteAt s i = (if i < length s then of_char (s ! i) else 0)"

text \<open>The width of the rune at the front of \<open>s\<close>; \<open>None\<close> where Go returns \<open>RuneError\<close> with
  width 1 (a byte that cannot start a rune, a sequence cut short, a second byte outside the
  range its first byte accepts, a later byte that is no continuation byte).\<close>

definition DecodeRune_width :: "string \<Rightarrow> nat option" where
  "DecodeRune_width s =
     (let n = length s; s0 = byteAt s 0; s1 = byteAt s 1; s2 = byteAt s 2; s3 = byteAt s 3 in
      if 0xC2 \<le> s0 \<and> s0 \<le> 0xDF then
        (if 2 \<le> n \<and> 0x80 \<le> s1 \<and> s1 \<le> 0xBF then Some 2 else None)
      else if 0xE0 \<le> s0 \<and> s0 \<le> 0xEF then
        (if 3 \<le> n \<and> (if s0 = 0xE0 then 0xA0 else 0x80) \<le> s1 \<and>
            s1 \<le> (if s0 = 0xED then 0x9F else 0xBF) \<and> 0x80 \<le> s2 \<and> s2 \<le> 0xBF
         then Some 3 else None)
      else if 0xF0 \<le> s0 \<and> s0 \<le> 0xF4 then
        (if 4 \<le> n \<and> (if s0 = 0xF0 then 0x90 else 0x80) \<le> s1 \<and>
            s1 \<le> (if s0 = 0xF4 then 0x8F else 0xBF) \<and> 0x80 \<le> s2 \<and> s2 \<le> 0xBF \<and>
            0x80 \<le> s3 \<and> s3 \<le> 0xBF
         then Some 4 else None)
      else None)"

function appendString :: "string \<Rightarrow> string" where
  "appendString [] = []"
| "appendString (c # cs) =
     (if (of_char c :: nat) < 0x80 then appendString_byte c @ appendString cs
      else case DecodeRune_width (c # cs) of
             None \<Rightarrow> [CHR 0xEF, CHR 0xBF, CHR 0xBD] @ appendString cs
           | Some width \<Rightarrow>
               if take 3 (c # cs) = [CHR 0xE2, CHR 0x80, CHR 0xA8]
                 then CHR 0x5C # ''u2028'' @ appendString (drop 3 (c # cs))
               else if take 3 (c # cs) = [CHR 0xE2, CHR 0x80, CHR 0xA9]
                 then CHR 0x5C # ''u2029'' @ appendString (drop 3 (c # cs))
               else take width (c # cs) @ appendString (drop width (c # cs)))"
  by pat_completeness auto
termination
  by (relation "measure length")
    (auto simp: DecodeRune_width_def Let_def split: if_splits)

definition json_string :: "string \<Rightarrow> string" where
  "json_string s = CHR 0x22 # appendString s @ [CHR 0x22]"

fun join :: "string \<Rightarrow> string list \<Rightarrow> string" where
  "join sep [] = []"
| "join sep [x] = x"
| "join sep (x # y # ys) = x @ sep @ join sep (y # ys)"

text \<open>\<open>json.Marshal\<close> of a \<open>map[string]string\<close>, given by its entries in key order.\<close>

definition json_Marshal_map :: "(string \<times> string) list \<Rightarrow> string" where
  "json_Marshal_map kvs =
     ''{'' @ join '','' (map (\<lambda>(k, v). json_string k @ '':'' @ json_string v) kvs) @ ''}''"

subsection \<open>\<open>time\<close>: the clock and \<open>time.RFC3339\<close>\<close>

text \<open>An instant as \<open>time.Now().UTC()\<close> presents it: the fields of the civil time in UTC.
  \<open>Format(time.RFC3339)\<close>, layout \<open>2006-01-02T15:04:05Z07:00\<close>, writes them zero-padded and
  ends with \<open>Z\<close> for UTC.\<close>

record Time =
  Year :: nat
  Month :: nat
  Day :: nat
  Hour :: nat
  Minute :: nat
  Second :: nat

definition appendInt :: "nat \<Rightarrow> nat \<Rightarrow> string" where
  "appendInt x width = replicate (width - length (formatBits x)) (CHR ''0'') @ formatBits x"

definition Format_RFC3339 :: "Time \<Rightarrow> string" where
  "Format_RFC3339 t =
     appendInt (Year t) 4 @ ''-'' @ appendInt (Month t) 2 @ ''-'' @ appendInt (Day t) 2 @ ''T'' @
     appendInt (Hour t) 2 @ '':'' @ appendInt (Minute t) 2 @ '':'' @ appendInt (Second t) 2 @ ''Z''"

subsection \<open>The data of the program\<close>

text \<open>\<open>net/http\<close>: the method names and status codes the program uses.\<close>

definition MethodGet :: string where "MethodGet = ''GET''"
definition MethodPost :: string where "MethodPost = ''POST''"
definition StatusOK :: int where "StatusOK = 200"
definition StatusCreated :: int where "StatusCreated = 201"
definition StatusBadRequest :: int where "StatusBadRequest = 400"
definition StatusNotFound :: int where "StatusNotFound = 404"
definition StatusMethodNotAllowed :: int where "StatusMethodNotAllowed = 405"
definition StatusInternalServerError :: int where "StatusInternalServerError = 500"

definition tableName :: string where
  "tableName = ''Orders''"

text \<open>The \<open>Order\<close> model, with the JSON names of its struct tags in \<open>json_Marshal_Order\<close>.\<close>

record Order =
  OrderID :: string
  CustomerName :: string
  Product :: string
  Quantity :: go_int
  Status :: string
  CreatedAt :: string

definition json_Marshal_Order :: "Order \<Rightarrow> string" where
  "json_Marshal_Order ord =
     ''{\"orderId\":'' @ json_string (OrderID ord) @
     '',\"customerName\":'' @ json_string (CustomerName ord) @
     '',\"product\":'' @ json_string (Product ord) @
     '',\"quantity\":'' @ Itoa (Quantity ord) @
     '',\"status\":'' @ json_string (Status ord) @
     '',\"createdAt\":'' @ json_string (CreatedAt ord) @ ''}''"

text \<open>\<open>json.Marshal\<close> of a non-nil \<open>[]Order\<close>.\<close>

definition json_Marshal_Orders :: "Order list \<Rightarrow> string" where
  "json_Marshal_Orders orders = ''['' @ join '','' (map json_Marshal_Order orders) @ '']''"

text \<open>The fields of \<open>events.APIGatewayProxyRequest\<close> and \<open>events.APIGatewayProxyResponse\<close>
  that the program reads and sets (\<open>ReqBody\<close> is the request's \<open>Body\<close>); the response's
  other fields keep their zero values.\<close>

record APIGatewayProxyRequest =
  HTTPMethod :: string
  PathParameters :: "string \<rightharpoonup> string"
  ReqBody :: string

record APIGatewayProxyResponse =
  StatusCode :: int
  Body :: string

text \<open>\<open>types.AttributeValue\<close>, the union of the DynamoDB SDK, and an item
  \<open>map[string]types.AttributeValue\<close>.\<close>

datatype AttributeValue =
    AttributeValueMemberB string
  | AttributeValueMemberBOOL bool
  | AttributeValueMemberBS "string list"
  | AttributeValueMemberL "AttributeValue list"
  | AttributeValueMemberM "(string \<times> AttributeValue) list"
  | AttributeValueMemberN string
  | AttributeValueMemberNS "string list"
  | AttributeValueMemberNULL bool
  | AttributeValueMemberS string
  | AttributeValueMemberSS "string list"

type_synonym item = "string \<rightharpoonup> AttributeValue"

subsection \<open>The store client and the world of an invocation\<close>

text \<open>
  The three inputs the program builds: \<open>PutItemInput{TableName, Item}\<close>,
  \<open>ScanInput{TableName}\<close> and
  \<open>QueryInput{TableName, KeyConditionExpression, ExpressionAttributeValues}\<close>.
\<close>

datatype PutItemInput = PutItemInput string item
datatype ScanInput = ScanInput string
datatype QueryInput = QueryInput string string item

text \<open>
  \<open>*dynamodb.Client\<close>, over a store of any type \<open>'s\<close>: each operation answers from the store's
  state and returns the new state. \<open>PutItem\<close> answers with its error only (the program drops
  the output); \<open>Scan\<close> and \<open>Query\<close> answer with an error or with \<open>out.Items\<close>, the one field
  of the output that the program reads.
\<close>

record 's Client =
  PutItem :: "PutItemInput \<Rightarrow> 's \<Rightarrow> error option \<times> 's"
  Scan :: "ScanInput \<Rightarrow> 's \<Rightarrow> (error + item list) \<times> 's"
  Query :: "QueryInput \<Rightarrow> 's \<Rightarrow> (error + item list) \<times> 's"

text \<open>What the program finds around it: the global \<open>dbClient\<close>, \<open>json.Unmarshal\<close> into a fresh
  \<open>Order\<close> (an error, or the decoded order), and the instant \<open>time.Now().UTC()\<close>.\<close>

record 's env =
  dbClient :: "'s Client"
  json_Unmarshal :: "string \<Rightarrow> error + Order"
  time_Now_UTC :: Time

text \<open>The world an invocation runs in: the store behind the client, and the calls made on
  the client so far, oldest first.\<close>

datatype store_call = PutItemCall PutItemInput | ScanCall ScanInput | QueryCall QueryInput

record 's world =
  remote :: 's
  calls :: "store_call list"

definition dbClient_PutItem :: "'s env \<Rightarrow> PutItemInput \<Rightarrow> 's world \<Rightarrow> error option \<times> 's world" where
  "dbClient_PutItem e inp w =
     (let (err, s') = PutItem (dbClient e) inp (remote w)
      in (err, \<lparr>remote = s', calls = calls w @ [PutItemCall inp]\<rparr>))"

definition dbClient_Scan :: "'s env \<Rightarrow> ScanInput \<Rightarrow> 's world \<Rightarrow> (error + item list) \<times> 's world" where
  "dbClient_Scan e inp w =
     (let (out, s') = Scan (dbClient e) inp (remote w)
      in (out, \<lparr>remote = s', calls = calls w @ [ScanCall inp]\<rparr>))"

definition dbClient_Query :: "'s env \<Rightarrow> QueryInput \<Rightarrow> 's world \<Rightarrow> (error + item list) \<times> 's world" where
  "dbClient_Query e inp w =
     (let (out, s') = Query (dbClient e) inp (remote w)
      in (out, \<lparr>remote = s', calls = calls w @ [QueryCall inp]\<rparr>))"

subsection \<open>The helpers of the program\<close>

definition response :: "int \<Rightarrow> string \<Rightarrow> APIGatewayProxyResponse \<times> error option" where
  "response status msg =
     (\<lparr>StatusCode = status, Body = json_Marshal_map [(''message'', msg)]\<rparr>, None)"

definition intToString :: "go_int \<Rightarrow> string" where
  "intToString i = Itoa i"

definition atoi :: "string \<Rightarrow> go_int" where
  "atoi s = (let (i, _) = Atoi s in i)"

text \<open>The type assertions \<open>item[k].(*types.AttributeValueMemberS)\<close> and
  \<open>item[k].(*types.AttributeValueMemberN)\<close>, followed by \<open>.Value\<close>: a missing key yields the nil
  interface, on which the assertion panics as it does on a member of another type.\<close>

definition assertS :: "item \<Rightarrow> string \<Rightarrow> panic + string" where
  "assertS item k =
     (case item k of
        Some (AttributeValueMemberS v) \<Rightarrow> Inr v
      | _ \<Rightarrow> Inl (InterfaceConversion k))"

definition assertN :: "item \<Rightarrow> string \<Rightarrow> panic + string" where
  "assertN item k =
     (case item k of
        Some (AttributeValueMemberN v) \<Rightarrow> Inr v
      | _ \<Rightarrow> Inl (InterfaceConversion k))"

text \<open>Go fixes the order of function calls only. The compiled program evaluates the operand
  of the call \<open>atoi(...)\<close>, the assertion on \<open>quantity\<close>, before the other fields of the struct
  literal, and these in the order they are written; the first assertion that fails is the
  panic.\<close>

definition mapToOrder :: "item \<Rightarrow> panic + Order" where
  "mapToOrder item =
     (case assertN item ''quantity'' of Inl p \<Rightarrow> Inl p | Inr q \<Rightarrow>
      case assertS item ''orderId'' of Inl p \<Rightarrow> Inl p | Inr oid \<Rightarrow>
      case assertS item ''customerName'' of Inl p \<Rightarrow> Inl p | Inr cn \<Rightarrow>
      case assertS item ''product'' of Inl p \<Rightarrow> Inl p | Inr pr \<Rightarrow>
      case assertS item ''status'' of Inl p \<Rightarrow> Inl p | Inr st \<Rightarrow>
      case assertS item ''createdAt'' of Inl p \<Rightarrow> Inl p | Inr ca \<Rightarrow>
        Inr \<lparr>OrderID = oid, CustomerName = cn, Product = pr, Quantity = atoi q,
             Status = st, CreatedAt = ca\<rparr>)"

subsection \<open>The three operations and the handler\<close>

text \<open>The result of an invocation: a panic, or the pair the Go function returns; and the
  world after it.\<close>

type_synonym 's outcome = "(panic + APIGatewayProxyResponse \<times> error option) \<times> 's world"

text \<open>The item \<open>createOrder\<close> hands to \<open>PutItem\<close>.\<close>

definition orderItem :: "Order \<Rightarrow> item" where
  "orderItem order =
     [''orderId'' \<mapsto> AttributeValueMemberS (OrderID order),
      ''customerName'' \<mapsto> AttributeValueMemberS (CustomerName order),
      ''product'' \<mapsto> AttributeValueMemberS (Product order),
      ''quantity'' \<mapsto> AttributeValueMemberN (intToString (Quantity order)),
      ''status'' \<mapsto> AttributeValueMemberS (Status order),
      ''createdAt'' \<mapsto> AttributeValueMemberS (CreatedAt order)]"

definition createOrder :: "'s env \<Rightarrow> APIGatewayProxyRequest \<Rightarrow> 's world \<Rightarrow> 's outcome" where
  "createOrder e req w =
     (case json_Unmarshal e (ReqBody req) of
        Inl err \<Rightarrow> (Inr (response StatusBadRequest ''Invalid request body''), w)
      | Inr order0 \<Rightarrow>
          let order = (if CreatedAt order0 = ''''
                       then order0\<lparr>CreatedAt := Format_RFC3339 (time_Now_UTC e)\<rparr>
                       else order0);
              (err, w') = dbClient_PutItem e (PutItemInput tableName (orderItem order)) w
          in case err of
               Some _ \<Rightarrow> (Inr (response StatusInternalServerError ''Failed to create order''), w')
             | None \<Rightarrow> (Inr (response StatusCreated ''Order created successfully''), w'))"

text \<open>The loop \<open>for _, item := range out.Items { orders = append(orders, mapToOrder(item)) }\<close>:
  it stops at the first item on which \<open>mapToOrder\<close> panics.\<close>

fun appendOrders :: "Order list \<Rightarrow> item list \<Rightarrow> panic + Order list" where
  "appendOrders orders [] = Inr orders"
| "appendOrders orders (item # items) =
     (case mapToOrder item of
        Inl p \<Rightarrow> Inl p
      | Inr ord \<Rightarrow> appendOrders (orders @ [ord]) items)"

definition getAllOrders :: "'s env \<Rightarrow> 's world \<Rightarrow> 's outcome" where
  "getAllOrders e w =
     (let (out, w') = dbClient_Scan e (ScanInput tableName) w
      in case out of
           Inl err \<Rightarrow> (Inr (response StatusInternalServerError ''Failed to fetch orders''), w')
         | Inr items \<Rightarrow>
             (case appendOrders [] items of
                Inl p \<Rightarrow> (Inl p, w')
              | Inr orders \<Rightarrow>
                  (Inr (\<lparr>StatusCode = StatusOK, Body = json_Marshal_Orders orders\<rparr>, None), w')))"

definition getOrderByID :: "'s env \<Rightarrow> string \<Rightarrow> 's world \<Rightarrow> 's outcome" where
  "getOrderByID e orderId w =
     (let (out, w') = dbClient_Query e
            (QueryInput tableName ''orderId = :oid''
               ['':oid'' \<mapsto> AttributeValueMemberS orderId]) w
      in case out of
           Inl err \<Rightarrow> (Inr (response StatusInternalServerError ''Failed to fetch order''), w')
         | Inr items \<Rightarrow>
             if length items = 0 then (Inr (response StatusNotFound ''Order not found''), w')
             else (case appendOrders [] items of
                     Inl p \<Rightarrow> (Inl p, w')
                   | Inr orders \<Rightarrow>
                       (Inr (\<lparr>StatusCode = StatusOK, Body = json_Marshal_Orders orders\<rparr>, None), w')))"

text \<open>\<open>v, ok := m[k]\<close>: the zero value and \<open>false\<close> for a key the map does not hold.\<close>

definition lookup :: "(string \<rightharpoonup> string) \<Rightarrow> string \<Rightarrow> string \<times> bool" where
  "lookup m k = (case m k of Some v \<Rightarrow> (v, True) | None \<Rightarrow> ('''', False))"

definition handler :: "'s env \<Rightarrow> APIGatewayProxyRequest \<Rightarrow> 's world \<Rightarrow> 's outcome" where
  "handler e req w =
     (if HTTPMethod req = MethodPost then createOrder e req w
      else if HTTPMethod req = MethodGet then
        (let (orderId, ok) = lookup (PathParameters req) ''orderId''
         in if ok \<and> orderId \<noteq> '''' then getOrderByID e orderId w
            else getAllOrders e w)
      else (Inr (\<lparr>StatusCode = StatusMethodNotAllowed, Body = ''Method not allowed''\<rparr>, None), w))"

subsection \<open>An in-memory store, to run the handler on concrete requests\<close>

text \<open>
  The store as the specification's glossary describes it: a table of items keyed by
  \<open>orderId\<close>; \<open>PutItem\<close> replaces the item of the same key or adds one, \<open>Scan\<close> returns
  every item, \<open>Query\<close> returns the items whose key equals the value bound to \<open>:oid\<close>.
  While \<open>outage\<close> holds an error, every operation fails with it and changes nothing.
\<close>

record memStore =
  table :: "item list"
  outage :: "error option"

definition memPutItem :: "PutItemInput \<Rightarrow> memStore \<Rightarrow> error option \<times> memStore" where
  "memPutItem inp s =
     (case inp of PutItemInput tn it \<Rightarrow>
        (case outage s of
           Some err \<Rightarrow> (Some err, s)
         | None \<Rightarrow>
             (None, s\<lparr>table := filter (\<lambda>x. x ''orderId'' \<noteq> it ''orderId'') (table s) @ [it]\<rparr>)))"

definition memScan :: "ScanInput \<Rightarrow> memStore \<Rightarrow> (error + item list) \<times> memStore" where
  "memScan inp s = (case outage s of Some err \<Rightarrow> (Inl err, s) | None \<Rightarrow> (Inr (table s), s))"

definition memQuery :: "QueryInput \<Rightarrow> memStore \<Rightarrow> (error + item list) \<times> memStore" where
  "memQuery inp s =
     (case inp of QueryInput tn cond vals \<Rightarrow>
        (case outage s of
           Some err \<Rightarrow> (Inl err, s)
         | None \<Rightarrow> (Inr (filter (\<lambda>x. x ''orderId'' = vals '':oid'') (table s)), s)))"

definition memClient :: "memStore Client" where
  "memClient = \<lparr>PutItem = memPutItem, Scan = memScan, Query = memQuery\<rparr>"

text \<open>A decoder given by a table of request bodies, standing for \<open>json.Unmarshal\<close> on those
  bodies; any other body is an error.\<close>

definition tableUnmarshal :: "(string \<times> Order) list \<Rightarrow> string \<Rightarrow> error + Order" where
  "tableUnmarshal tbl body =
     (case map_of tbl body of
        Some ord \<Rightarrow> Inr ord
      | None \<Rightarrow> Inl (Error ''invalid character''))"

text \<open>The order of the test left in \<open>main\<close> (it has no \<open>createdAt\<close>) with a body that
  decodes to it, and a second one that brings its own \<open>createdAt\<close>.\<close>

definition lunchBody :: string where
  "lunchBody = ''{\"orderId\":\"20221\",\"customerName\":\"Siri\",\"product\":\"Lunch Box\",\"quantity\":1,\"status\":\"CREATED\"}''"

definition lunchOrder :: Order where
  "lunchOrder = \<lparr>OrderID = ''20221'', CustomerName = ''Siri'', Product = ''Lunch Box'',
     Quantity = 1, Status = ''CREATED'', CreatedAt = ''''\<rparr>"

definition penBody :: string where
  "penBody = ''{\"orderId\":\"7\",\"customerName\":\"Ravi\",\"product\":\"Pen\",\"quantity\":12,\"status\":\"PAID\",\"createdAt\":\"2025-03-04T05:06:07Z\"}''"

definition penOrder :: Order where
  "penOrder = \<lparr>OrderID = ''7'', CustomerName = ''Ravi'', Product = ''Pen'',
     Quantity = 12, Status = ''PAID'', CreatedAt = ''2025-03-04T05:06:07Z''\<rparr>"

definition sampleNow :: Time where
  "sampleNow = \<lparr>Year = 2026, Month = 1, Day = 2, Hour = 15, Minute = 4, Second = 5\<rparr>"

definition memEnv :: "memStore env" where
  "memEnv = \<lparr>dbClient = memClient,
     json_Unmarshal = tableUnmarshal [(lunchBody, lunchOrder), (penBody, penOrder)],
     time_Now_UTC = sampleNow\<rparr>"

definition memWorld :: "item list \<Rightarrow> error option \<Rightarrow> memStore world" where
  "memWorld items down = \<lparr>remote = \<lparr>table = items, outage = down\<rparr>, calls = []\<rparr>"

text \<open>The requests of the tests left in \<open>main\<close>: a POST with a body, a GET with path
  parameters.\<close>

definition postRequest :: "string \<Rightarrow> APIGatewayProxyRequest" where
  "postRequest body = \<lparr>HTTPMethod = ''POST'', PathParameters = Map.empty, ReqBody = body\<rparr>"

definition getRequest :: "(string \<rightharpoonup> string) \<Rightarrow> APIGatewayProxyRequest" where
  "getRequest params = \<lparr>HTTPMethod = ''GET'', PathParameters = params, ReqBody = ''''\<rparr>"

text \<open>The lunch order as \<open>createOrder\<close> stores it at \<open>sampleNow\<close>.\<close>

definition lunchStored :: Order where
  "lunchStored = lunchOrder\<lparr>CreatedAt := ''2026-01-02T15:04:05Z''\<rparr>"




section \<open>Properties\<close>

subsection \<open>Decimal strings: \<open>Atoi\<close> reads back what \<open>Itoa\<close> writes\<close>


lemma of_char_digit: "d < 10 \<Longrightarrow> (of_char (digit d) :: nat) = 48 + d"
proof -
  assume "d < 10"
  then consider "d = 0" | "d = 1" | "d = 2" | "d = 3" | "d = 4" | "d = 5" | "d = 6" | "d = 7"
    | "d = 8" | "d = 9"
    by atomize_elim presburger
  then show ?thesis by cases (simp_all add: digit_def)
qed

lemma ParseUint_loop_append:
  "ParseUint_loop n (xs @ ys) =
     (case ParseUint_loop n xs of (v, None) \<Rightarrow> ParseUint_loop v ys | (v, Some e) \<Rightarrow> (v, Some e))"
  by (induction xs arbitrary: n) (auto simp: Let_def)

lemma ParseUint_loop_digit:
  assumes "d < 10" "n * 10 + d < 2 ^ 64"
  shows "ParseUint_loop n [digit d] = (n * 10 + d, None)"
proof -
  have "n < maxUint64 div 10 + 1" using assms by (simp add: maxUint64_def)
  moreover have "n * 10 + d \<le> maxUint64" using assms by (simp add: maxUint64_def)
  ultimately show ?thesis using assms
    by (simp add: of_char_digit Let_def)
qed

lemma ParseUint_loop_formatBits:
  "u < 2 ^ 64 \<Longrightarrow> ParseUint_loop 0 (formatBits u) = (u, None)"
proof (induction u rule: formatBits.induct)
  case (1 u)
  show ?case
  proof (cases "u < 10")
    case True
    then show ?thesis using ParseUint_loop_digit [of u 0] 1(2)
      by (subst formatBits.simps) simp
  next
    case False
    have "u div 10 < 2 ^ 64" using 1(2) by simp
    then have ih: "ParseUint_loop 0 (formatBits (u div 10)) = (u div 10, None)"
      using 1(1) False by simp
    have "u div 10 * 10 + u mod 10 = u" by simp
    then have "ParseUint_loop (u div 10) [digit (u mod 10)] = (u, None)"
      using ParseUint_loop_digit [of "u mod 10" "u div 10"] 1(2) by simp
    then show ?thesis using False ih
      by (subst formatBits.simps) (simp add: ParseUint_loop_append)
  qed
qed

lemma formatBits_hd:
  "formatBits u \<noteq> [] \<and> (\<exists>d<10. hd (formatBits u) = digit d)"
proof (induction u rule: formatBits.induct)
  case (1 u)
  show ?case
  proof (cases "u < 10")
    case True
    then show ?thesis by (subst (1 2) formatBits.simps) auto
  next
    case False
    then show ?thesis using 1 by (subst (1 2) formatBits.simps) auto
  qed
qed

lemma formatBits_not_sign:
  "formatBits u \<noteq> []" "hd (formatBits u) \<noteq> CHR ''-''" "hd (formatBits u) \<noteq> CHR ''+''"
proof -
  obtain d where d: "d < 10" "hd (formatBits u) = digit d" using formatBits_hd by blast
  show "formatBits u \<noteq> []" using formatBits_hd by blast
  have "(of_char (hd (formatBits u)) :: nat) = 48 + d" using d of_char_digit by simp
  then show "hd (formatBits u) \<noteq> CHR ''-''" "hd (formatBits u) \<noteq> CHR ''+''" by auto
qed

lemma ParseUint_formatBits: "u < 2 ^ 64 \<Longrightarrow> ParseUint (formatBits u) = (u, None)"
  by (simp add: ParseUint_def formatBits_not_sign ParseUint_loop_formatBits)

lemma ParseInt_FormatInt:
  assumes "- (2 ^ 63) \<le> i" "i < 2 ^ 63"
  shows "ParseInt (FormatInt i) = (i, None)"
proof (cases "i < 0")
  case True
  have "nat (- i) \<le> 2 ^ 63" using assms True by simp
  then have "nat (- i) < 2 ^ 64" by simp
  then have "ParseUint (formatBits (nat (- i))) = (nat (- i), None)"
    by (rule ParseUint_formatBits)
  then show ?thesis using True \<open>nat (- i) \<le> 2 ^ 63\<close>
    by (simp add: ParseInt_def FormatInt_def)
next
  case False
  have lt: "nat i < 2 ^ 63" using assms False by simp
  then have "nat i < 2 ^ 64" by simp
  then have "ParseUint (formatBits (nat i)) = (nat i, None)"
    by (rule ParseUint_formatBits)
  then show ?thesis using False lt
    by (simp add: ParseInt_def FormatInt_def formatBits_not_sign)
qed

lemma Atoi_Itoa: "Atoi (Itoa i) = (i, None)"
proof -
  have "- (2 ^ 63) \<le> sint i" "sint i < 2 ^ 63"
    using sint_ge [of i] sint_lt [of i] by simp_all
  then have "ParseInt (FormatInt (sint i)) = (sint i, None)" by (rule ParseInt_FormatInt)
  then show ?thesis by (simp add: Atoi_def Itoa_def)
qed

subsection \<open>The responses and the dispatch\<close>

lemmas http_defs = MethodGet_def MethodPost_def StatusOK_def StatusCreated_def
  StatusBadRequest_def StatusNotFound_def StatusMethodNotAllowed_def
  StatusInternalServerError_def



lemma json_string_messages:
  "json_string ''message'' = ''\"message\"''"
  "json_string ''Invalid request body'' = ''\"Invalid request body\"''"
  "json_string ''Failed to create order'' = ''\"Failed to create order\"''"
  "json_string ''Order created successfully'' = ''\"Order created successfully\"''"
  "json_string ''Failed to fetch orders'' = ''\"Failed to fetch orders\"''"
  "json_string ''Failed to fetch order'' = ''\"Failed to fetch order\"''"
  "json_string ''Order not found'' = ''\"Order not found\"''"
  by (simp_all add: json_string_def appendString_byte_def)

lemma response_messages:
  "response status ''Invalid request body'' =
     (\<lparr>StatusCode = status, Body = ''{\"message\":\"Invalid request body\"}''\<rparr>, None)"
  "response status ''Failed to create order'' =
     (\<lparr>StatusCode = status, Body = ''{\"message\":\"Failed to create order\"}''\<rparr>, None)"
  "response status ''Order created successfully'' =
     (\<lparr>StatusCode = status, Body = ''{\"message\":\"Order created successfully\"}''\<rparr>, None)"
  "response status ''Failed to fetch orders'' =
     (\<lparr>StatusCode = status, Body = ''{\"message\":\"Failed to fetch orders\"}''\<rparr>, None)"
  "response status ''Failed to fetch order'' =
     (\<lparr>StatusCode = status, Body = ''{\"message\":\"Failed to fetch order\"}''\<rparr>, None)"
  "response status ''Order not found'' =
     (\<lparr>StatusCode = status, Body = ''{\"message\":\"Order not found\"}''\<rparr>, None)"
  by (simp_all add: response_def json_Marshal_map_def json_string_messages)

lemma handler_POST: "HTTPMethod req = MethodPost \<Longrightarrow> handler e req w = createOrder e req w"
  by (simp add: handler_def)

lemma handler_GET:
  "HTTPMethod req = MethodGet \<Longrightarrow>
   handler e req w =
     (case PathParameters req ''orderId'' of
        None \<Rightarrow> getAllOrders e w
      | Some oid \<Rightarrow> if oid = '''' then getAllOrders e w else getOrderByID e oid w)"
  by (simp add: handler_def lookup_def http_defs split: option.splits)

lemma mapToOrder_orderItem: "mapToOrder (orderItem ord) = Inr ord"
  by (simp add: mapToOrder_def orderItem_def assertS_def assertN_def atoi_def intToString_def
      Atoi_Itoa)


lemma getAllOrders_Scan:
  "Scan (dbClient e) (ScanInput tableName) (remote w) = (out, s') \<Longrightarrow>
   getAllOrders e w =
     (let w' = \<lparr>remote = s', calls = calls w @ [ScanCall (ScanInput tableName)]\<rparr>
      in case out of
           Inl err \<Rightarrow> (Inr (response StatusInternalServerError ''Failed to fetch orders''), w')
         | Inr items \<Rightarrow>
             (case appendOrders [] items of
                Inl p \<Rightarrow> (Inl p, w')
              | Inr orders \<Rightarrow>
                  (Inr (\<lparr>StatusCode = StatusOK, Body = json_Marshal_Orders orders\<rparr>, None), w')))"
  by (simp add: getAllOrders_def dbClient_Scan_def Let_def split: sum.splits)

lemma getOrderByID_Query:
  "Query (dbClient e) (QueryInput tableName ''orderId = :oid''
      ['':oid'' \<mapsto> AttributeValueMemberS orderId]) (remote w) = (out, s') \<Longrightarrow>
   getOrderByID e orderId w =
     (let w' = \<lparr>remote = s', calls = calls w @ [QueryCall (QueryInput tableName ''orderId = :oid''
                 ['':oid'' \<mapsto> AttributeValueMemberS orderId])]\<rparr>
      in case out of
           Inl err \<Rightarrow> (Inr (response StatusInternalServerError ''Failed to fetch order''), w')
         | Inr items \<Rightarrow>
             if items = [] then (Inr (response StatusNotFound ''Order not found''), w')
             else (case appendOrders [] items of
                     Inl p \<Rightarrow> (Inl p, w')
                   | Inr orders \<Rightarrow>
                       (Inr (\<lparr>StatusCode = StatusOK, Body = json_Marshal_Orders orders\<rparr>, None), w')))"
  by (simp add: getOrderByID_def dbClient_Query_def Let_def split: sum.splits)

subsection \<open>The handler on the in-memory store\<close>


lemma lunchBody_neq_penBody: "lunchBody \<noteq> penBody"
  by (simp add: lunchBody_def penBody_def)

lemma memEnv_simps:
  "dbClient memEnv = memClient"
  "time_Now_UTC memEnv = sampleNow"
  "json_Unmarshal memEnv lunchBody = Inr lunchOrder"
  "json_Unmarshal memEnv penBody = Inr penOrder"
  "json_Unmarshal memEnv ''{'' = Inl (Error ''invalid character'')"
  using lunchBody_neq_penBody
  by (simp_all add: memEnv_def tableUnmarshal_def) (simp_all add: lunchBody_def penBody_def)

lemma memClient_simps:
  "PutItem memClient = memPutItem" "Scan memClient = memScan" "Query memClient = memQuery"
  by (simp_all add: memClient_def)

lemma Format_sampleNow: "Format_RFC3339 sampleNow = ''2026-01-02T15:04:05Z''"
  by (simp add: Format_RFC3339_def sampleNow_def appendInt_def formatBits.simps digit_def)

lemma orderItem_key: "orderItem ord ''orderId'' = Some (AttributeValueMemberS (OrderID ord))"
  by (simp add: orderItem_def)





subsection \<open>The loop over the items, the JSON array, and the errors of \<open>Atoi\<close>\<close>

lemma appendOrders_length:
  "appendOrders acc items = Inr orders \<Longrightarrow> length orders = length acc + length items"
  by (induction items arbitrary: acc) (auto split: sum.splits)

lemma appendOrders_panics:
  "x \<in> set items \<Longrightarrow> mapToOrder x = Inl p' \<Longrightarrow> \<exists>p. appendOrders acc items = Inl p"
  by (induction items arbitrary: acc) (auto split: sum.splits)

lemma join_Cons: "join sep ((c # r) # xs) = c # tl (join sep ((c # r) # xs))"
  by (cases xs) simp_all

lemma json_Marshal_Order_Cons: "\<exists>r. json_Marshal_Order ord = CHR ''{'' # r"
  by (simp add: json_Marshal_Order_def)

lemma json_Marshal_Orders_nonempty:
  assumes "orders \<noteq> []"
  shows "json_Marshal_Orders orders \<noteq> ''[]''"
proof -
  obtain ord rest where os: "orders = ord # rest" using assms by (cases orders) auto
  obtain r where r: "json_Marshal_Order ord = CHR ''{'' # r"
    using json_Marshal_Order_Cons by blast
  have "join '','' (map json_Marshal_Order orders) =
          CHR ''{'' # tl (join '','' (map json_Marshal_Order orders))"
    using join_Cons [of "'',''" "CHR ''{''" r "map json_Marshal_Order rest"]
    by (simp add: os r)
  then obtain t where "join '','' (map json_Marshal_Order orders) = CHR ''{'' # t" by blast
  then show ?thesis by (simp add: json_Marshal_Orders_def)
qed

lemma createOrder_PutItem:
  assumes "json_Unmarshal e (ReqBody req) = Inr ord"
  shows "snd (createOrder e req w) =
     \<lparr>remote = snd (PutItem (dbClient e)
         (PutItemInput tableName (orderItem (ord\<lparr>CreatedAt :=
            (if CreatedAt ord = '''' then Format_RFC3339 (time_Now_UTC e) else CreatedAt ord)\<rparr>)))
         (remote w)),
      calls = calls w @ [PutItemCall (PutItemInput tableName (orderItem (ord\<lparr>CreatedAt :=
            (if CreatedAt ord = '''' then Format_RFC3339 (time_Now_UTC e) else CreatedAt ord)\<rparr>)))]\<rparr>"
  using assms
  by (simp add: createOrder_def dbClient_PutItem_def Let_def split: prod.splits option.splits)

lemma assertS_Inr:
  "(\<exists>v. assertS item k = Inr v) \<longleftrightarrow> (\<exists>v. item k = Some (AttributeValueMemberS v))"
  by (auto simp: assertS_def split: option.splits AttributeValue.splits)

lemma assertN_Inr:
  "(\<exists>v. assertN item k = Inr v) \<longleftrightarrow> (\<exists>v. item k = Some (AttributeValueMemberN v))"
  by (auto simp: assertN_def split: option.splits AttributeValue.splits)

lemma mapToOrder_Inr_iff:
  "(\<exists>ord. mapToOrder item = Inr ord) \<longleftrightarrow>
     (\<exists>v. item ''orderId'' = Some (AttributeValueMemberS v)) \<and>
     (\<exists>v. item ''customerName'' = Some (AttributeValueMemberS v)) \<and>
     (\<exists>v. item ''product'' = Some (AttributeValueMemberS v)) \<and>
     (\<exists>v. item ''quantity'' = Some (AttributeValueMemberN v)) \<and>
     (\<exists>v. item ''status'' = Some (AttributeValueMemberS v)) \<and>
     (\<exists>v. item ''createdAt'' = Some (AttributeValueMemberS v))"
  unfolding assertS_Inr [symmetric] assertN_Inr [symmetric]
  by (auto simp: mapToOrder_def split: sum.splits)

lemmas strconv_defs = Atoi_def ParseInt_def ParseUint_def maxUint64_def Let_def

lemma Atoi_samples:
  "Atoi ''1.5'' = (0, Some ErrSyntax)"
  "Atoi ''9223372036854775808'' = (9223372036854775807, Some ErrRange)"
  "Atoi ''12'' = (12, None)"
  by (simp_all add: strconv_defs)

lemma ParseInt_ErrSyntax: "snd (ParseInt s) = Some ErrSyntax \<Longrightarrow> fst (ParseInt s) = 0"
  by (auto simp: ParseInt_def Let_def split: prod.splits if_splits)

lemma ParseInt_ErrRange:
  "snd (ParseInt s) = Some ErrRange \<Longrightarrow>
   fst (ParseInt s) = 2 ^ 63 - 1 \<or> fst (ParseInt s) = - (2 ^ 63)"
  by (auto simp: ParseInt_def Let_def split: prod.splits if_splits)

lemma Atoi_ParseInt: "Atoi s = (word_of_int (fst (ParseInt s)), snd (ParseInt s))"
  by (simp add: Atoi_def split: prod.splits)

lemma atoi_ErrSyntax: "snd (Atoi s) = Some ErrSyntax \<Longrightarrow> atoi s = 0"
  using ParseInt_ErrSyntax [of s] by (simp add: atoi_def Atoi_ParseInt)

lemma atoi_ErrRange:
  assumes "snd (Atoi s) = Some ErrRange"
  shows "sint (atoi s) = 2 ^ 63 - 1 \<or> sint (atoi s) = - (2 ^ 63)"
proof -
  have a: "atoi s = word_of_int (fst (ParseInt s))" by (simp add: atoi_def Atoi_ParseInt)
  have "fst (ParseInt s) = 2 ^ 63 - 1 \<or> fst (ParseInt s) = - (2 ^ 63)"
    using assms ParseInt_ErrRange [of s] by (simp add: Atoi_ParseInt)
  then show ?thesis
  proof
    assume "fst (ParseInt s) = 2 ^ 63 - 1"
    then have "atoi s = 9223372036854775807" using a by simp
    then show ?thesis by simp
  next
    assume "fst (ParseInt s) = - (2 ^ 63)"
    then have "atoi s = - 9223372036854775808" using a by simp
    then show ?thesis by simp
  qed
qed

subsection \<open>Runs of the handler on the in-memory store and on the paged store\<close>










subsection \<open>The claims\<close>




text \<open>
  C2. For every GET in which the store read fails, the handler returns status 500 with the
  body the specification writes \<open>{"message":"Failed to fetch order(s)"}\<close>: it is
  \<open>{"message":"Failed to fetch order"}\<close> when the read is the query of fetch-one (a
  non-empty order identifier), and \<open>{"message":"Failed to fetch orders"}\<close> when it is the
  scan of fetch-all (no identifier, or an empty one).
\<close>

theorem fetch_failure_500:
  assumes "HTTPMethod req = ''GET''"
  shows "(PathParameters req ''orderId'' = Some oid \<and> oid \<noteq> '''' \<and>
          fst (Query (dbClient e)
                 (QueryInput ''Orders'' ''orderId = :oid'' ['':oid'' \<mapsto> AttributeValueMemberS oid])
                 (remote w)) = Inl err \<longrightarrow>
            fst (handler e req w) =
              Inr (\<lparr>StatusCode = 500, Body = ''{\"message\":\"Failed to fetch order\"}''\<rparr>, None)) \<and>
         ((PathParameters req ''orderId'' = None \<or> PathParameters req ''orderId'' = Some '''') \<and>
          fst (Scan (dbClient e) (ScanInput ''Orders'') (remote w)) = Inl err \<longrightarrow>
            fst (handler e req w) =
              Inr (\<lparr>StatusCode = 500, Body = ''{\"message\":\"Failed to fetch orders\"}''\<rparr>, None))"
proof -
  obtain qo qs where q: "Query (dbClient e)
      (QueryInput tableName ''orderId = :oid'' ['':oid'' \<mapsto> AttributeValueMemberS oid])
      (remote w) = (qo, qs)"
    by (cases "Query (dbClient e)
      (QueryInput tableName ''orderId = :oid'' ['':oid'' \<mapsto> AttributeValueMemberS oid])
      (remote w)")
  obtain so ss where s: "Scan (dbClient e) (ScanInput tableName) (remote w) = (so, ss)"
    by (cases "Scan (dbClient e) (ScanInput tableName) (remote w)")
  have one: "qo = Inl err \<Longrightarrow> fst (getOrderByID e oid w) =
      Inr (\<lparr>StatusCode = 500, Body = ''{\"message\":\"Failed to fetch order\"}''\<rparr>, None)"
    using getOrderByID_Query [OF q] by (simp add: response_messages http_defs)
  have all: "so = Inl err \<Longrightarrow> fst (getAllOrders e w) =
      Inr (\<lparr>StatusCode = 500, Body = ''{\"message\":\"Failed to fetch orders\"}''\<rparr>, None)"
    using getAllOrders_Scan [OF s] by (simp add: response_messages http_defs)
  show ?thesis
    using assms one all q s
    by (auto simp: handler_GET http_defs tableName_def)
qed

theorem fetch_failure_500_witness:
  "fst (handler memEnv (getRequest [''orderId'' \<mapsto> ''7''])
          (memWorld [orderItem penOrder] (Some (Error ''timeout'')))) =
     Inr (\<lparr>StatusCode = 500, Body = ''{\"message\":\"Failed to fetch order\"}''\<rparr>, None) \<and>
   fst (handler memEnv (getRequest Map.empty)
          (memWorld [orderItem penOrder] (Some (Error ''timeout'')))) =
     Inr (\<lparr>StatusCode = 500, Body = ''{\"message\":\"Failed to fetch orders\"}''\<rparr>, None)"
  using fetch_failure_500 [of "getRequest [''orderId'' \<mapsto> ''7'']" "''7''" memEnv
      "memWorld [orderItem penOrder] (Some (Error ''timeout''))" "Error ''timeout''"]
    fetch_failure_500 [of "getRequest Map.empty" "''7''" memEnv
      "memWorld [orderItem penOrder] (Some (Error ''timeout''))" "Error ''timeout''"]
  by (simp add: getRequest_def memWorld_def memEnv_simps memClient_simps memQuery_def memScan_def)

text \<open>
  C3. For every POST whose body \<open>json.Unmarshal\<close> decodes to an order \<open>ord\<close>, the handler makes
  one store call, \<open>PutItem\<close> on the table \<open>Orders\<close>, and the store afterwards is what that
  call leaves. The item it writes holds \<open>orderId\<close>, \<open>customerName\<close>, \<open>product\<close> and \<open>status\<close>
  of \<open>ord\<close> as strings and its quantity as the decimal number that reads back as
  \<open>Quantity ord\<close>; \<open>createdAt\<close> is the clock's UTC time in RFC3339 when \<open>ord\<close> has none, and the
  one of \<open>ord\<close> otherwise.
\<close>

theorem createOrder_stores_input:
  assumes "HTTPMethod req = ''POST''" and "json_Unmarshal e (ReqBody req) = Inr ord"
  shows "\<exists>it. calls (snd (handler e req w)) = calls w @ [PutItemCall (PutItemInput ''Orders'' it)] \<and>
           remote (snd (handler e req w)) =
             snd (PutItem (dbClient e) (PutItemInput ''Orders'' it) (remote w)) \<and>
           it ''orderId'' = Some (AttributeValueMemberS (OrderID ord)) \<and>
           it ''customerName'' = Some (AttributeValueMemberS (CustomerName ord)) \<and>
           it ''product'' = Some (AttributeValueMemberS (Product ord)) \<and>
           it ''quantity'' = Some (AttributeValueMemberN (intToString (Quantity ord))) \<and>
           it ''status'' = Some (AttributeValueMemberS (Status ord)) \<and>
           it ''createdAt'' = Some (AttributeValueMemberS
              (if CreatedAt ord = '''' then Format_RFC3339 (time_Now_UTC e) else CreatedAt ord)) \<and>
           mapToOrder it = Inr (ord\<lparr>CreatedAt :=
              (if CreatedAt ord = '''' then Format_RFC3339 (time_Now_UTC e) else CreatedAt ord)\<rparr>)"
proof -
  let ?ord = "ord\<lparr>CreatedAt :=
     (if CreatedAt ord = '''' then Format_RFC3339 (time_Now_UTC e) else CreatedAt ord)\<rparr>"
  have h: "handler e req w = createOrder e req w"
    using assms(1) by (simp add: handler_POST http_defs)
  have "calls (snd (handler e req w)) =
      calls w @ [PutItemCall (PutItemInput ''Orders'' (orderItem ?ord))]"
    and "remote (snd (handler e req w)) =
      snd (PutItem (dbClient e) (PutItemInput ''Orders'' (orderItem ?ord)) (remote w))"
    using createOrder_PutItem [OF assms(2), of w] h by (simp_all add: tableName_def)
  moreover have "orderItem ?ord ''orderId'' = Some (AttributeValueMemberS (OrderID ord))"
    "orderItem ?ord ''customerName'' = Some (AttributeValueMemberS (CustomerName ord))"
    "orderItem ?ord ''product'' = Some (AttributeValueMemberS (Product ord))"
    "orderItem ?ord ''quantity'' = Some (AttributeValueMemberN (intToString (Quantity ord)))"
    "orderItem ?ord ''status'' = Some (AttributeValueMemberS (Status ord))"
    "orderItem ?ord ''createdAt'' = Some (AttributeValueMemberS
       (if CreatedAt ord = '''' then Format_RFC3339 (time_Now_UTC e) else CreatedAt ord))"
    by (simp_all add: orderItem_def)
  moreover have "mapToOrder (orderItem ?ord) = Inr ?ord" by (rule mapToOrder_orderItem)
  ultimately show ?thesis by blast
qed

theorem createOrder_stores_input_witness:
  "\<exists>it. calls (snd (handler memEnv (postRequest lunchBody) (memWorld [] None))) =
          [PutItemCall (PutItemInput ''Orders'' it)] \<and>
        table (remote (snd (handler memEnv (postRequest lunchBody) (memWorld [] None)))) = [it] \<and>
        it ''orderId'' = Some (AttributeValueMemberS ''20221'') \<and>
        it ''customerName'' = Some (AttributeValueMemberS ''Siri'') \<and>
        it ''product'' = Some (AttributeValueMemberS ''Lunch Box'') \<and>
        it ''quantity'' = Some (AttributeValueMemberN ''1'') \<and>
        it ''status'' = Some (AttributeValueMemberS ''CREATED'') \<and>
        it ''createdAt'' = Some (AttributeValueMemberS ''2026-01-02T15:04:05Z'')"
proof -
  have m: "HTTPMethod (postRequest lunchBody) = ''POST''" by (simp add: postRequest_def)
  have u: "json_Unmarshal memEnv (ReqBody (postRequest lunchBody)) = Inr lunchOrder"
    by (simp add: postRequest_def memEnv_simps)
  have q: "intToString (Quantity lunchOrder) = ''1''"
    by (simp add: lunchOrder_def intToString_def Itoa_def FormatInt_def formatBits.simps digit_def)
  obtain it where it:
    "calls (snd (handler memEnv (postRequest lunchBody) (memWorld [] None))) =
       calls (memWorld [] None) @ [PutItemCall (PutItemInput ''Orders'' it)]"
    "remote (snd (handler memEnv (postRequest lunchBody) (memWorld [] None))) =
       snd (PutItem (dbClient memEnv) (PutItemInput ''Orders'' it) (remote (memWorld [] None)))"
    "it ''orderId'' = Some (AttributeValueMemberS (OrderID lunchOrder))"
    "it ''customerName'' = Some (AttributeValueMemberS (CustomerName lunchOrder))"
    "it ''product'' = Some (AttributeValueMemberS (Product lunchOrder))"
    "it ''quantity'' = Some (AttributeValueMemberN (intToString (Quantity lunchOrder)))"
    "it ''status'' = Some (AttributeValueMemberS (Status lunchOrder))"
    "it ''createdAt'' = Some (AttributeValueMemberS
       (if CreatedAt lunchOrder = '''' then Format_RFC3339 (time_Now_UTC memEnv)
        else CreatedAt lunchOrder))"
    using createOrder_stores_input [OF m u, of "memWorld [] None"] by blast
  have "calls (snd (handler memEnv (postRequest lunchBody) (memWorld [] None))) =
          [PutItemCall (PutItemInput ''Orders'' it)]"
    using it(1) by (simp add: memWorld_def)
  moreover have "table (remote (snd (handler memEnv (postRequest lunchBody) (memWorld [] None)))) = [it]"
    using it(2) by (simp add: memWorld_def memEnv_simps memClient_simps memPutItem_def)
  moreover have "it ''orderId'' = Some (AttributeValueMemberS ''20221'')"
    "it ''customerName'' = Some (AttributeValueMemberS ''Siri'')"
    "it ''product'' = Some (AttributeValueMemberS ''Lunch Box'')"
    "it ''status'' = Some (AttributeValueMemberS ''CREATED'')"
    using it(3,4,5,7) by (simp_all add: lunchOrder_def)
  moreover have "it ''quantity'' = Some (AttributeValueMemberN ''1'')"
    using it(6) q by simp
  moreover have "it ''createdAt'' = Some (AttributeValueMemberS ''2026-01-02T15:04:05Z'')"
    using it(8) by (simp add: lunchOrder_def memEnv_simps Format_sampleNow)
  ultimately show ?thesis by blast
qed

text \<open>
  C4. For every POST whose body \<open>json.Unmarshal\<close> rejects, the handler returns status 400
  with the body \<open>{"message":"Invalid request body"}\<close> and leaves the world as it was: no
  call on the store client is added to the calls made, and the store is unchanged.
\<close>

theorem createOrder_invalid_body:
  assumes "HTTPMethod req = ''POST''" and "json_Unmarshal e (ReqBody req) = Inl err"
  shows "handler e req w =
           (Inr (\<lparr>StatusCode = 400, Body = ''{\"message\":\"Invalid request body\"}''\<rparr>, None), w)"
  using assms by (simp add: handler_POST http_defs createOrder_def response_messages)

theorem createOrder_invalid_body_witness:
  "json_Unmarshal memEnv (ReqBody (postRequest ''{'')) = Inl (Error ''invalid character'') \<and>
   handler memEnv (postRequest ''{'') (memWorld [orderItem penOrder] None) =
     (Inr (\<lparr>StatusCode = 400, Body = ''{\"message\":\"Invalid request body\"}''\<rparr>, None),
      \<lparr>remote = \<lparr>table = [orderItem penOrder], outage = None\<rparr>, calls = []\<rparr>)"
proof -
  have m: "HTTPMethod (postRequest ''{'') = ''POST''" by (simp add: postRequest_def)
  have u: "json_Unmarshal memEnv (ReqBody (postRequest ''{'')) = Inl (Error ''invalid character'')"
    by (simp add: postRequest_def memEnv_simps)
  show ?thesis
    using createOrder_invalid_body [OF m u, of "memWorld [orderItem penOrder] None"] u
    by (simp add: memWorld_def)
qed

text \<open>
  C5. For every GET with a non-empty order identifier: when the query succeeds with no item,
  the handler returns status 404 with the body \<open>{"message":"Order not found"}\<close>; and whatever
  the store answers, the handler never returns status 200 with the empty array \<open>[]\<close>.
\<close>

theorem getOrderByID_not_found:
  assumes "HTTPMethod req = ''GET''" and "PathParameters req ''orderId'' = Some oid"
    and "oid \<noteq> ''''"
  shows "(fst (Query (dbClient e)
                 (QueryInput ''Orders'' ''orderId = :oid'' ['':oid'' \<mapsto> AttributeValueMemberS oid])
                 (remote w)) = Inr [] \<longrightarrow>
            fst (handler e req w) =
              Inr (\<lparr>StatusCode = 404, Body = ''{\"message\":\"Order not found\"}''\<rparr>, None)) \<and>
         fst (handler e req w) \<noteq> Inr (\<lparr>StatusCode = 200, Body = ''[]''\<rparr>, None)"
proof -
  obtain out s' where q: "Query (dbClient e)
      (QueryInput tableName ''orderId = :oid'' ['':oid'' \<mapsto> AttributeValueMemberS oid])
      (remote w) = (out, s')"
    by (cases "Query (dbClient e)
      (QueryInput tableName ''orderId = :oid'' ['':oid'' \<mapsto> AttributeValueMemberS oid])
      (remote w)")
  have h: "handler e req w = getOrderByID e oid w"
    using assms by (simp add: handler_GET http_defs)
  have nf: "out = Inr [] \<Longrightarrow> fst (getOrderByID e oid w) =
      Inr (\<lparr>StatusCode = 404, Body = ''{\"message\":\"Order not found\"}''\<rparr>, None)"
    using getOrderByID_Query [OF q] by (simp add: response_messages http_defs)
  have ne: "fst (getOrderByID e oid w) \<noteq> Inr (\<lparr>StatusCode = 200, Body = ''[]''\<rparr>, None)"
  proof (cases out)
    case (Inl err)
    then show ?thesis
      using getOrderByID_Query [OF q] by (simp add: response_messages http_defs)
  next
    case (Inr items)
    show ?thesis
    proof (cases "items = []")
      case True
      then show ?thesis
        using getOrderByID_Query [OF q] Inr by (simp add: response_messages http_defs)
    next
      case False
      show ?thesis
      proof (cases "appendOrders [] items")
        case (Inl p)
        then show ?thesis using getOrderByID_Query [OF q] Inr False by simp
      next
        case ok: (Inr orders)
        have "orders \<noteq> []" using appendOrders_length [OF ok] False by auto
        then have "json_Marshal_Orders orders \<noteq> ''[]''" by (rule json_Marshal_Orders_nonempty)
        then show ?thesis using getOrderByID_Query [OF q] Inr False ok by simp
      qed
    qed
  qed
  show ?thesis using h nf ne q by (simp add: tableName_def)
qed

theorem getOrderByID_not_found_witness:
  "fst (handler memEnv (getRequest [''orderId'' \<mapsto> ''20221''])
          (memWorld [orderItem penOrder] None)) =
     Inr (\<lparr>StatusCode = 404, Body = ''{\"message\":\"Order not found\"}''\<rparr>, None)"
  using getOrderByID_not_found [of "getRequest [''orderId'' \<mapsto> ''20221'']" "''20221''" memEnv
      "memWorld [orderItem penOrder] None"]
  by (simp add: getRequest_def memWorld_def memEnv_simps memClient_simps memQuery_def
      orderItem_key penOrder_def)

text \<open>
  C6. The quantity round-trips: for every \<open>int\<close>, \<open>atoi\<close> reads back from the decimal string
  of \<open>intToString\<close> the integer it was written from; so the item \<open>createOrder\<close> writes for an
  order is mapped back by \<open>mapToOrder\<close> to that order, quantity included.
\<close>

theorem quantity_round_trip:
  "atoi (intToString i) = i \<and> mapToOrder (orderItem ord) = Inr ord"
  by (simp add: atoi_def intToString_def Atoi_Itoa mapToOrder_orderItem)

text \<open>
  C7, as the specification states it: whenever the quantity string of a stored record does
  not parse as an integer, \<open>mapToOrder\<close> sets the quantity to zero. The string
  \<open>9223372036854775808\<close> (2 to the 63, a number DynamoDB can hold) does not parse: \<open>Atoi\<close>
  reports a range error. \<open>atoi\<close> drops the error and keeps the value returned with it,
  which is the largest \<open>int\<close>, not zero.
\<close>

theorem quantity_parse_failure_counterexample:
  "snd (Atoi ''9223372036854775808'') = Some ErrRange \<and>
   mapToOrder ((orderItem penOrder)(''quantity'' \<mapsto> AttributeValueMemberN ''9223372036854775808'')) =
     Inr (penOrder\<lparr>Quantity := 9223372036854775807\<rparr>) \<and>
   (9223372036854775807 :: go_int) \<noteq> 0"
  by (simp add: mapToOrder_def assertS_def assertN_def orderItem_def penOrder_def atoi_def
      Atoi_samples)

text \<open>
  C7, amended. For every stored record with its six attributes of the expected types,
  \<open>mapToOrder\<close> does not fail, whatever the quantity string \<open>q\<close> is, and the quantity of the
  order is what \<open>Atoi\<close> returns beside its error: zero when \<open>Atoi\<close> rejects \<open>q\<close> as malformed
  (a syntax error), and the largest or the smallest \<open>int\<close> when \<open>Atoi\<close> rejects \<open>q\<close> as out of
  range.
\<close>

theorem mapToOrder_quantity_parse_failure:
  assumes "item ''orderId'' = Some (AttributeValueMemberS oid)"
    and "item ''customerName'' = Some (AttributeValueMemberS cn)"
    and "item ''product'' = Some (AttributeValueMemberS pr)"
    and "item ''quantity'' = Some (AttributeValueMemberN q)"
    and "item ''status'' = Some (AttributeValueMemberS st)"
    and "item ''createdAt'' = Some (AttributeValueMemberS ca)"
  shows "mapToOrder item =
           Inr \<lparr>OrderID = oid, CustomerName = cn, Product = pr, Quantity = atoi q,
                Status = st, CreatedAt = ca\<rparr> \<and>
         (snd (Atoi q) = Some ErrSyntax \<longrightarrow> atoi q = 0) \<and>
         (snd (Atoi q) = Some ErrRange \<longrightarrow>
            sint (atoi q) = 2 ^ 63 - 1 \<or> sint (atoi q) = - (2 ^ 63))"
  using assms atoi_ErrSyntax [of q] atoi_ErrRange [of q]
  by (simp add: mapToOrder_def assertS_def assertN_def)

theorem mapToOrder_quantity_parse_failure_witness:
  "snd (Atoi ''1.5'') = Some ErrSyntax \<and>
   mapToOrder ((orderItem penOrder)(''quantity'' \<mapsto> AttributeValueMemberN ''1.5'')) =
     Inr (penOrder\<lparr>Quantity := 0\<rparr>) \<and>
   snd (Atoi ''9223372036854775808'') = Some ErrRange \<and>
   sint (atoi ''9223372036854775808'') = 2 ^ 63 - 1"
proof -
  let ?a = "(orderItem penOrder)(''quantity'' \<mapsto> AttributeValueMemberN ''1.5'')"
  let ?b = "(orderItem penOrder)(''quantity'' \<mapsto> AttributeValueMemberN ''9223372036854775808'')"
  have a: "mapToOrder ?a = Inr \<lparr>OrderID = ''7'', CustomerName = ''Ravi'', Product = ''Pen'',
      Quantity = atoi ''1.5'', Status = ''PAID'', CreatedAt = ''2025-03-04T05:06:07Z''\<rparr> \<and>
      (snd (Atoi ''1.5'') = Some ErrSyntax \<longrightarrow> atoi ''1.5'' = 0)"
    using mapToOrder_quantity_parse_failure [of ?a "''7''" "''Ravi''" "''Pen''" "''1.5''"
        "''PAID''" "''2025-03-04T05:06:07Z''"]
    by (simp add: orderItem_def penOrder_def)
  have b: "snd (Atoi ''9223372036854775808'') = Some ErrRange \<longrightarrow>
      sint (atoi ''9223372036854775808'') = 2 ^ 63 - 1 \<or>
      sint (atoi ''9223372036854775808'') = - (2 ^ 63)"
    using mapToOrder_quantity_parse_failure [of ?b "''7''" "''Ravi''" "''Pen''"
        "''9223372036854775808''" "''PAID''" "''2025-03-04T05:06:07Z''"]
    by (simp add: orderItem_def penOrder_def)
  have c: "atoi ''9223372036854775808'' = 9223372036854775807"
    by (simp add: atoi_def Atoi_samples)
  show ?thesis using a b c by (simp add: Atoi_samples penOrder_def)
qed

text \<open>
  C8. For every request whose method is neither GET nor POST, the handler returns status
  405 with the plain text \<open>Method not allowed\<close> and leaves the world as it was: no call on
  the store client, and the store unchanged.
\<close>

theorem handler_method_not_allowed:
  assumes "HTTPMethod req \<noteq> ''GET''" and "HTTPMethod req \<noteq> ''POST''"
  shows "handler e req w =
           (Inr (\<lparr>StatusCode = 405, Body = ''Method not allowed''\<rparr>, None), w)"
  using assms by (simp add: handler_def http_defs)

theorem handler_method_not_allowed_witness:
  "handler memEnv \<lparr>HTTPMethod = ''DELETE'', PathParameters = [''orderId'' \<mapsto> ''7''], ReqBody = ''''\<rparr>
     (memWorld [orderItem penOrder] None) =
   (Inr (\<lparr>StatusCode = 405, Body = ''Method not allowed''\<rparr>, None),
    \<lparr>remote = \<lparr>table = [orderItem penOrder], outage = None\<rparr>, calls = []\<rparr>)"
  using handler_method_not_allowed [of "\<lparr>HTTPMethod = ''DELETE'', PathParameters = [''orderId'' \<mapsto> ''7''], ReqBody = ''''\<rparr>" memEnv "memWorld [orderItem penOrder] None"]
  by (simp add: memWorld_def)

text \<open>
  C9. \<open>mapToOrder\<close> is not total. It panics on exactly the items in which one of \<open>orderId\<close>,
  \<open>customerName\<close>, \<open>product\<close>, \<open>status\<close>, \<open>createdAt\<close> is absent or not a string member, or
  \<open>quantity\<close> is absent or not a number member; and when the scan, or the query, answers with
  a list that holds such an item, \<open>getAllOrders\<close>, or \<open>getOrderByID\<close>, ends in a panic instead
  of a response.
\<close>

theorem mapToOrder_not_total:
  "((\<exists>p. mapToOrder item = Inl p) \<longleftrightarrow>
      \<not> ((\<exists>v. item ''orderId'' = Some (AttributeValueMemberS v)) \<and>
         (\<exists>v. item ''customerName'' = Some (AttributeValueMemberS v)) \<and>
         (\<exists>v. item ''product'' = Some (AttributeValueMemberS v)) \<and>
         (\<exists>v. item ''quantity'' = Some (AttributeValueMemberN v)) \<and>
         (\<exists>v. item ''status'' = Some (AttributeValueMemberS v)) \<and>
         (\<exists>v. item ''createdAt'' = Some (AttributeValueMemberS v)))) \<and>
   (fst (Scan (dbClient e) (ScanInput ''Orders'') (remote w)) = Inr items \<and>
    item \<in> set items \<and> mapToOrder item = Inl p \<longrightarrow>
      (\<exists>p'. fst (getAllOrders e w) = Inl p')) \<and>
   (fst (Query (dbClient e)
           (QueryInput ''Orders'' ''orderId = :oid'' ['':oid'' \<mapsto> AttributeValueMemberS oid])
           (remote w)) = Inr items \<and>
    item \<in> set items \<and> mapToOrder item = Inl p \<longrightarrow>
      (\<exists>p'. fst (getOrderByID e oid w) = Inl p'))"
proof (intro conjI impI)
  show "(\<exists>p. mapToOrder item = Inl p) \<longleftrightarrow>
      \<not> ((\<exists>v. item ''orderId'' = Some (AttributeValueMemberS v)) \<and>
         (\<exists>v. item ''customerName'' = Some (AttributeValueMemberS v)) \<and>
         (\<exists>v. item ''product'' = Some (AttributeValueMemberS v)) \<and>
         (\<exists>v. item ''quantity'' = Some (AttributeValueMemberN v)) \<and>
         (\<exists>v. item ''status'' = Some (AttributeValueMemberS v)) \<and>
         (\<exists>v. item ''createdAt'' = Some (AttributeValueMemberS v)))"
    unfolding mapToOrder_Inr_iff [symmetric] by (cases "mapToOrder item") auto
next
  assume a: "fst (Scan (dbClient e) (ScanInput ''Orders'') (remote w)) = Inr items \<and>
    item \<in> set items \<and> mapToOrder item = Inl p"
  obtain s' where s: "Scan (dbClient e) (ScanInput tableName) (remote w) = (Inr items, s')"
    using a by (cases "Scan (dbClient e) (ScanInput tableName) (remote w)")
      (simp add: tableName_def)
  obtain p' where "appendOrders [] items = Inl p'"
    using appendOrders_panics [of item items p "[]"] a by blast
  then show "\<exists>p'. fst (getAllOrders e w) = Inl p'"
    using getAllOrders_Scan [OF s] by simp
next
  assume a: "fst (Query (dbClient e)
           (QueryInput ''Orders'' ''orderId = :oid'' ['':oid'' \<mapsto> AttributeValueMemberS oid])
           (remote w)) = Inr items \<and>
    item \<in> set items \<and> mapToOrder item = Inl p"
  obtain s' where s: "Query (dbClient e)
      (QueryInput tableName ''orderId = :oid'' ['':oid'' \<mapsto> AttributeValueMemberS oid])
      (remote w) = (Inr items, s')"
    using a by (cases "Query (dbClient e)
      (QueryInput tableName ''orderId = :oid'' ['':oid'' \<mapsto> AttributeValueMemberS oid])
      (remote w)") (simp add: tableName_def)
  have ne: "items \<noteq> []" using a by auto
  obtain p' where "appendOrders [] items = Inl p'"
    using appendOrders_panics [of item items p "[]"] a by blast
  then show "\<exists>p'. fst (getOrderByID e oid w) = Inl p'"
    using getOrderByID_Query [OF s] ne by simp
qed

theorem mapToOrder_not_total_witness:
  "mapToOrder ((orderItem penOrder)(''status'' := None)) = Inl (InterfaceConversion ''status'') \<and>
   mapToOrder ((orderItem penOrder)(''quantity'' \<mapsto> AttributeValueMemberS ''12'')) =
     Inl (InterfaceConversion ''quantity'') \<and>
   (\<exists>p'. fst (getAllOrders memEnv
      (memWorld [orderItem lunchStored,
                 (orderItem penOrder)(''quantity'' \<mapsto> AttributeValueMemberS ''12'')] None)) = Inl p') \<and>
   (\<exists>p'. fst (getOrderByID memEnv ''7''
      (memWorld [orderItem lunchStored,
                 (orderItem penOrder)(''quantity'' \<mapsto> AttributeValueMemberS ''12'')] None)) = Inl p')"
proof -
  let ?bad = "(orderItem penOrder)(''quantity'' \<mapsto> AttributeValueMemberS ''12'')"
  let ?w = "memWorld [orderItem lunchStored, ?bad] None"
  have m: "mapToOrder ((orderItem penOrder)(''status'' := None)) = Inl (InterfaceConversion ''status'')"
    by (simp add: mapToOrder_def assertS_def assertN_def orderItem_def)
  have b: "mapToOrder ?bad = Inl (InterfaceConversion ''quantity'')"
    by (simp add: mapToOrder_def assertS_def assertN_def orderItem_def)
  have s: "fst (Scan (dbClient memEnv) (ScanInput ''Orders'') (remote ?w)) =
      Inr [orderItem lunchStored, ?bad]"
    by (simp add: memWorld_def memEnv_simps memClient_simps memScan_def)
  have q: "fst (Query (dbClient memEnv)
      (QueryInput ''Orders'' ''orderId = :oid'' ['':oid'' \<mapsto> AttributeValueMemberS ''7''])
      (remote ?w)) = Inr [?bad]"
    by (simp add: memWorld_def memEnv_simps memClient_simps memQuery_def orderItem_def
        lunchStored_def lunchOrder_def penOrder_def)
  have "\<exists>p'. fst (getAllOrders memEnv ?w) = Inl p'"
    using mapToOrder_not_total [of ?bad memEnv ?w "[orderItem lunchStored, ?bad]"
        "InterfaceConversion ''quantity''"] s b
    by simp
  moreover have "\<exists>p'. fst (getOrderByID memEnv ''7'' ?w) = Inl p'"
    using mapToOrder_not_total [of ?bad memEnv ?w "[?bad]"
        "InterfaceConversion ''quantity''" "''7''"] q b
    by simp
  ultimately show ?thesis using m b by blast
qed

text \<open>
  C10. For every GET whose path parameters bind \<open>orderId\<close> to the empty string, the handler
  runs \<open>getAllOrders\<close>: its one store call is the scan of the table. And a GET ends with a
  query as its store call only when \<open>orderId\<close> is bound to a non-empty identifier, the one
  \<open>getOrderByID\<close> is run with.
\<close>

theorem handler_GET_empty_orderId:
  assumes "HTTPMethod req = ''GET''"
  shows "(PathParameters req ''orderId'' = Some '''' \<longrightarrow>
            handler e req w = getAllOrders e w \<and>
            calls (snd (handler e req w)) = calls w @ [ScanCall (ScanInput ''Orders'')]) \<and>
         (\<forall>q. calls (snd (handler e req w)) = calls w @ [QueryCall q] \<longrightarrow>
            (\<exists>oid. PathParameters req ''orderId'' = Some oid \<and> oid \<noteq> '''' \<and>
               handler e req w = getOrderByID e oid w))"
proof -
  have scan: "calls (snd (getAllOrders e w)) = calls w @ [ScanCall (ScanInput ''Orders'')]"
    by (simp add: getAllOrders_def dbClient_Scan_def tableName_def
        split: prod.splits sum.splits)
  show ?thesis
    using assms scan
    by (auto simp: handler_GET http_defs split: option.splits)
qed

theorem handler_GET_empty_orderId_witness:
  "handler memEnv (getRequest [''orderId'' \<mapsto> ''''])
     (memWorld [orderItem lunchStored, orderItem penOrder] None) =
   getAllOrders memEnv (memWorld [orderItem lunchStored, orderItem penOrder] None) \<and>
   calls (snd (handler memEnv (getRequest [''orderId'' \<mapsto> ''''])
     (memWorld [orderItem lunchStored, orderItem penOrder] None))) = [ScanCall (ScanInput ''Orders'')]"
proof -
  have m: "HTTPMethod (getRequest [''orderId'' \<mapsto> '''']) = ''GET''"
    by (simp add: getRequest_def)
  have p: "PathParameters (getRequest [''orderId'' \<mapsto> '''']) ''orderId'' = Some ''''"
    by (simp add: getRequest_def)
  have c: "calls (memWorld [orderItem lunchStored, orderItem penOrder] None) = []"
    by (simp add: memWorld_def)
  show ?thesis
    using handler_GET_empty_orderId [OF m, of memEnv
        "memWorld [orderItem lunchStored, orderItem penOrder] None"] p c
    by auto
qed

end
